theory Spec2Isabelle
  imports Main "HOL-Library.Sublist" "HOL-Library.Multiset"
begin

section \<open>Python values used by both programs\<close>

text \<open>
  A Python \<open>str\<close> is modelled as a \<open>string\<close> whose characters stand for the code points
  U+0000 to U+00FF. The exceptions the two scripts can end with are the values of
  \<open>py_error\<close>; \<open>External\<close> is an exception raised inside one of the libraries the
  scripts call (a document loader, the question-answering chain).
\<close>

datatype py_error =
    PyException string
  | ValueError string
  | InvalidLiteral nat string
  | TypeError string
  | KeyError string
  | ImportError string string
  | SystemExit int
  | EOFError
  | External string

definition quote :: char where
  "quote = CHR 0x27"

text \<open>
  The message of each exception. \<open>InvalidLiteral b s\<close> is the \<open>ValueError\<close> of
  \<open>int(s, b)\<close> for a base \<open>b\<close> below 100; its message ends with the \<open>repr\<close> of \<open>s\<close>,
  written here as \<open>s\<close> between quotes. \<open>KeyError k\<close> is a dictionary lookup of the
  missing key \<open>k\<close>. \<open>ImportError n m\<close> is raised by an import of the name \<open>n\<close> from the
  module \<open>m\<close>; its message goes on with the location of the module, which is left out.
\<close>

definition show_base :: "nat \<Rightarrow> string" where
  "show_base b =
     (if b < 10 then [char_of (48 + b)]
      else [char_of (48 + b div 10), char_of (48 + b mod 10)])"

fun error_message :: "py_error \<Rightarrow> string" where
  "error_message (PyException m) = m"
| "error_message (ValueError m) = m"
| "error_message (InvalidLiteral b s) =
     ''invalid literal for int() with base '' @ show_base b @ '': '' @ [quote] @ s @ [quote]"
| "error_message (TypeError m) = m"
| "error_message (KeyError k) = [quote] @ k @ [quote]"
| "error_message (ImportError n m) =
     ''cannot import name '' @ [quote] @ n @ [quote] @ '' from '' @ [quote] @ m @ [quote]"
| "error_message (SystemExit n) = []"
| "error_message EOFError = []"
| "error_message (External m) = m"

text \<open>\<open>str.isspace\<close> on the code points below 256, as \<open>str.strip()\<close> uses it.\<close>

definition is_space :: "char \<Rightarrow> bool" where
  "is_space c = (of_char c \<in> {9, 10, 11, 12, 13, 28, 29, 30, 31, 32, 133, 160 :: nat})"

definition py_strip :: "string \<Rightarrow> string" where
  "py_strip s = rev (dropWhile is_space (rev (dropWhile is_space s)))"

text \<open>\<open>str.lower()\<close> on the code points below 256.\<close>

definition py_lower_char :: "char \<Rightarrow> char" where
  "py_lower_char c =
     (let n = of_char c :: nat
      in if (65 \<le> n \<and> n \<le> 90) \<or> (192 \<le> n \<and> n \<le> 222 \<and> n \<noteq> 215)
         then char_of (n + 32) else c)"

definition py_lower :: "string \<Rightarrow> string" where
  "py_lower s = map py_lower_char s"

text \<open>
  \<open>str.upper()\<close>, which the scripts apply to the keys of \<open>LOADER_MAPPING\<close> only. The three
  code points below 256 whose upper-case form is not a single code point below 256
  (U+00B5, U+00DF, U+00FF) are left as they are.
\<close>

definition py_upper_char :: "char \<Rightarrow> char" where
  "py_upper_char c =
     (let n = of_char c :: nat
      in if (97 \<le> n \<and> n \<le> 122) \<or> (224 \<le> n \<and> n \<le> 254 \<and> n \<noteq> 247)
         then char_of (n - 32) else c)"

definition py_upper :: "string \<Rightarrow> string" where
  "py_upper s = map py_upper_char s"

text \<open>\<open>s.rsplit(".", 1)[-1]\<close>: the text after the last dot, the whole of \<open>s\<close> when it has none.\<close>

definition rsplit_last :: "string \<Rightarrow> string" where
  "rsplit_last s = rev (takeWhile (\<lambda>c. c \<noteq> CHR ''.'') (rev s))"

fun contains :: "string \<Rightarrow> string \<Rightarrow> bool" where
  "contains pat [] = (pat = [])"
| "contains pat (c # cs) = (prefix pat (c # cs) \<or> contains pat cs)"

text \<open>A Document: its text and its metadata dictionary.\<close>

record document =
  page_content :: string
  metadata :: "(string \<times> string) list"

definition metadata_source :: "(string \<times> string) list \<Rightarrow> py_error + string" where
  "metadata_source md =
     (case map_of md ''source'' of None \<Rightarrow> Inl (KeyError ''source'') | Some p \<Rightarrow> Inr p)"


section \<open>privateGPT.py: the interactive loop\<close>

text \<open>
  What the loop does that can be seen from outside: \<open>Prompt\<close> is a call of \<open>input\<close>,
  \<open>Retrieve q\<close> the call \<open>qa(q)\<close> (retrieval and generation), \<open>PrintQuestion\<close> the two lines
  of the question, \<open>PrintAnswer\<close> the answer header (with the measured time, which is not
  modelled) and the answer, \<open>PrintSource\<close> the two lines of one source document.
\<close>

datatype event =
    Prompt
  | Retrieve string
  | PrintQuestion string
  | PrintAnswer string
  | PrintSource string string

text \<open>The command line of privateGPT.py, as \<open>parse_arguments\<close> returns it.\<close>

record args =
  hide_source :: bool
  mute_stream :: bool

text \<open>The loop over the source documents of one answer.\<close>

fun print_sources :: "document list \<Rightarrow> event list \<times> py_error option" where
  "print_sources [] = ([], None)"
| "print_sources (d # ds) =
     (case metadata_source (metadata d) of
        Inl e \<Rightarrow> ([], Some e)
      | Inr src \<Rightarrow>
          (case print_sources ds of
             (ev, r) \<Rightarrow> (PrintSource src (page_content d) # ev, r)))"

text \<open>
  The \<open>while True\<close> loop of \<open>main\<close>, on the lines the user will type: \<open>input\<close> raises
  \<open>EOFError\<close> when they run out. The result is the events in order and the exception
  that ended the loop, \<open>None\<close> for the \<open>break\<close>.
\<close>

fun query_loop ::
  "(string \<Rightarrow> py_error + string \<times> document list) \<Rightarrow> args \<Rightarrow> string list
     \<Rightarrow> event list \<times> py_error option" where
  "query_loop qa a [] = ([Prompt], Some EOFError)"
| "query_loop qa a (query # rest) =
     (if query = ''exit'' then ([Prompt], None)
      else if py_strip query = [] then
        (case query_loop qa a rest of (ev, r) \<Rightarrow> (Prompt # ev, r))
      else
        (case qa query of
           Inl e \<Rightarrow> ([Prompt, Retrieve query], Some e)
         | Inr (answer, source_documents) \<Rightarrow>
             (let docs = (if hide_source a then [] else source_documents);
                  shown = [Prompt, Retrieve query, PrintQuestion query, PrintAnswer answer]
              in case print_sources docs of
                   (evs, Some e) \<Rightarrow> (shown @ evs, Some e)
                 | (evs, None) \<Rightarrow>
                     (case query_loop qa a rest of
                        (ev, r) \<Rightarrow> (shown @ evs @ ev, r)))))"


section \<open>privateGPT.py: configuration read at import time\<close>

text \<open>
  \<open>int(x, base)\<close> for a base from 2 to 36, on \<open>None\<close> or a string. Whitespace around the
  literal is skipped (the code points 9 to 13, 32, 133 and 160), a sign may follow, then
  for the bases 2, 8 and 16 a prefix \<open>0b\<close>, \<open>0o\<close> or \<open>0x\<close> with one underscore after it, then
  digits of the base with single underscores between them.
\<close>

definition int_space :: "char \<Rightarrow> bool" where
  "int_space c = (of_char c \<in> {9, 10, 11, 12, 13, 32, 133, 160 :: nat})"

definition digit_val :: "char \<Rightarrow> nat option" where
  "digit_val c =
     (let n = of_char c :: nat
      in if 48 \<le> n \<and> n \<le> 57 then Some (n - 48)
         else if 97 \<le> n \<and> n \<le> 122 then Some (n - 87)
         else if 65 \<le> n \<and> n \<le> 90 then Some (n - 55)
         else None)"

definition is_digit_in :: "nat \<Rightarrow> char \<Rightarrow> bool" where
  "is_digit_in base c = (case digit_val c of None \<Rightarrow> False | Some d \<Rightarrow> d < base)"

definition strip_sign :: "string \<Rightarrow> int \<times> string" where
  "strip_sign s =
     (case s of
        [] \<Rightarrow> (1, s)
      | c # r \<Rightarrow> if c = CHR ''+'' then (1, r) else if c = CHR ''-'' then (- 1, r) else (1, s))"

definition has_base_prefix :: "nat \<Rightarrow> string \<Rightarrow> bool" where
  "has_base_prefix base s =
     (case s of
        z # p # r \<Rightarrow>
          z = CHR ''0'' \<and>
          ((base = 16 \<and> (p = CHR ''x'' \<or> p = CHR ''X'')) \<or>
           (base = 8 \<and> (p = CHR ''o'' \<or> p = CHR ''O'')) \<or>
           (base = 2 \<and> (p = CHR ''b'' \<or> p = CHR ''B'')))
      | _ \<Rightarrow> False)"

definition strip_base_prefix :: "nat \<Rightarrow> string \<Rightarrow> string" where
  "strip_base_prefix base s =
     (if has_base_prefix base s
      then (case drop 2 s of
              [] \<Rightarrow> []
            | c # r \<Rightarrow> if c = CHR ''_'' then r else c # r)
      else s)"

fun underscores_ok :: "string \<Rightarrow> bool" where
  "underscores_ok [] = True"
| "underscores_ok [c] = (c \<noteq> CHR ''_'')"
| "underscores_ok (c # d # r) = (\<not> (c = CHR ''_'' \<and> d = CHR ''_'') \<and> underscores_ok (d # r))"

definition digits_value :: "nat \<Rightarrow> string \<Rightarrow> nat" where
  "digits_value base ds =
     foldl (\<lambda>acc c. acc * base + (case digit_val c of None \<Rightarrow> 0 | Some d \<Rightarrow> d)) 0 ds"

definition py_int_str :: "string \<Rightarrow> nat \<Rightarrow> py_error + int" where
  "py_int_str s base =
     (case strip_sign (dropWhile int_space s) of
        (sign, s2) \<Rightarrow>
          (let s3 = strip_base_prefix base s2;
               body = takeWhile (\<lambda>c. is_digit_in base c \<or> c = CHR ''_'') s3;
               rest = dropWhile (\<lambda>c. is_digit_in base c \<or> c = CHR ''_'') s3;
               ds = filter (\<lambda>c. c \<noteq> CHR ''_'') body
           in if take 1 s3 = ''_'' \<or> \<not> underscores_ok body \<or> ds = []
                 \<or> dropWhile int_space rest \<noteq> []
              then Inl (InvalidLiteral base s)
              else Inr (sign * int (digits_value base ds))))"

definition py_int :: "string option \<Rightarrow> nat \<Rightarrow> py_error + int" where
  "py_int x base =
     (case x of
        None \<Rightarrow> Inl (TypeError ''int() can't convert non-string with explicit base'')
      | Some s \<Rightarrow> py_int_str s base)"

text \<open>The module-level names of privateGPT.py.\<close>

record config =
  embeddings_model_name :: "string option"
  persist_directory :: "string option"
  model_type :: "string option"
  model_path :: "string option"
  model_n_ctx :: "string option"
  model_n_batch :: int
  target_source_chunks :: int

datatype backend = LlamaCpp | GPT4All

text \<open>
  What privateGPT.py meets outside itself. \<open>llms_exports\<close> are the names the module
  \<open>langchain.llms\<close> exports; \<open>parsed_arguments\<close> is what \<open>parse_arguments\<close> returns for the
  command line, the flags or the \<open>SystemExit\<close> of \<open>argparse\<close>. The next six fields give
  the exception, if any, that a constructor of the libraries raises on the arguments
  \<open>main\<close> passes to it: the embeddings on the model name, the Chroma client and the store
  on the persist directory, the retriever on the number of chunks, the language model
  on the backend, the configuration and the flags, the chain on the backend and the
  flags. \<open>chain\<close> is the call of the question-answering chain on a query.
\<close>

record runtime =
  llms_exports :: "string list"
  parsed_arguments :: "py_error + args"
  embeddings_error :: "string option \<Rightarrow> py_error option"
  client_error :: "string option \<Rightarrow> py_error option"
  store_error :: "string option \<Rightarrow> py_error option"
  retriever_error :: "int \<Rightarrow> py_error option"
  llm_error :: "backend \<Rightarrow> config \<Rightarrow> args \<Rightarrow> py_error option"
  chain_error :: "backend \<Rightarrow> args \<Rightarrow> py_error option"
  chain :: "backend \<Rightarrow> string \<Rightarrow> py_error + string \<times> document list"

text \<open>
  \<open>from m import n1, n2\<close>: the names are looked up in order, and the first one the
  module does not export raises \<open>ImportError\<close>.
\<close>

fun import_from :: "string \<Rightarrow> string list \<Rightarrow> string list \<Rightarrow> py_error option" where
  "import_from m exports [] = None"
| "import_from m exports (n # ns) =
     (if n \<in> set exports then import_from m exports ns else Some (ImportError n m))"

text \<open>
  constants.py, which privateGPT.py imports before it reads anything itself. The
  environment is the process environment after \<open>load_dotenv\<close>.
\<close>

definition constants_module :: "(string \<rightharpoonup> string) \<Rightarrow> py_error + string" where
  "constants_module env =
     (case env ''PERSIST_DIRECTORY'' of
        None \<Rightarrow> Inl (PyException ''Please set the PERSIST_DIRECTORY environment variable'')
      | Some d \<Rightarrow> Inr d)"

text \<open>
  The top level of privateGPT.py up to the definition of \<open>main\<close>: the import of
  \<open>GPT4All\<close> and \<open>Llamacpp\<close> from \<open>langchain.llms\<close> on line 11 (the imports before it are
  taken to succeed), the import of constants.py, the check of \<open>load_dotenv\<close> (its
  result is \<open>dotenv_loaded\<close>; on False the script prints a message and calls \<open>exit(1)\<close>),
  and the seven assignments.
\<close>

definition privateGPT_module ::
  "runtime \<Rightarrow> bool \<Rightarrow> (string \<rightharpoonup> string) \<Rightarrow> py_error + config" where
  "privateGPT_module w dotenv_loaded env =
     (case import_from ''langchain.llms'' (llms_exports w) [''GPT4All'', ''Llamacpp''] of
        Some e \<Rightarrow> Inl e
      | None \<Rightarrow>
          (case constants_module env of
             Inl e \<Rightarrow> Inl e
           | Inr _ \<Rightarrow>
               if \<not> dotenv_loaded then Inl (SystemExit 1)
               else
                 (case py_int (env ''MODEL_N_BATCH'') 8 of
                    Inl e \<Rightarrow> Inl e
                  | Inr n_batch \<Rightarrow>
                      (case py_int (env ''TARGET_SOURCE_CHUNKS'') 4 of
                         Inl e \<Rightarrow> Inl e
                       | Inr chunks \<Rightarrow>
                           Inr \<lparr>embeddings_model_name = env ''EMBEDDINGS_MODEL_NAME'',
                                persist_directory = env ''PERSIST_DIRECTORY'',
                                model_type = env ''MODEL_TYPE'',
                                model_path = env ''MODEL_PATH'',
                                model_n_ctx = env ''MODEL_N_CTX'',
                                model_n_batch = n_batch,
                                target_source_chunks = chunks\<rparr>))))"


section \<open>privateGPT.py: the backend and main\<close>

text \<open>How an f-string renders a value that is a \<open>str\<close> or \<open>None\<close>.\<close>

definition py_format :: "string option \<Rightarrow> string" where
  "py_format v = (case v of None \<Rightarrow> ''None'' | Some s \<Rightarrow> s)"

text \<open>The \<open>match model_type\<close> statement, up to the choice of the constructor.\<close>

definition select_llm :: "string option \<Rightarrow> py_error + backend" where
  "select_llm mt =
     (if mt = Some ''LlamaCpp'' then Inr LlamaCpp
      else if mt = Some ''GPT4ALL'' then Inr GPT4All
      else Inl (PyException
             (''Model Type '' @ py_format mt @
              '' is not supported. Please choose either 'LlamaCpp' or 'GPT4All'' @ [quote])))"

text \<open>The first exception of a sequence of calls, each made when those before returned.\<close>

fun first_error :: "py_error option list \<Rightarrow> py_error option" where
  "first_error [] = None"
| "first_error (None # rs) = first_error rs"
| "first_error (Some e # rs) = Some e"

text \<open>
  \<open>main\<close> of privateGPT.py: the arguments are parsed, the embeddings, the Chroma client,
  the store and the retriever are built, the backend is chosen and its model built,
  the chain is built, and the loop runs.
\<close>

definition privateGPT_main ::
  "runtime \<Rightarrow> config \<Rightarrow> string list \<Rightarrow> event list \<times> py_error option" where
  "privateGPT_main w cfg inputs =
     (case parsed_arguments w of
        Inl e \<Rightarrow> ([], Some e)
      | Inr a \<Rightarrow>
          (case first_error
                  [embeddings_error w (embeddings_model_name cfg),
                   client_error w (persist_directory cfg),
                   store_error w (persist_directory cfg),
                   retriever_error w (target_source_chunks cfg)] of
             Some e \<Rightarrow> ([], Some e)
           | None \<Rightarrow>
               (case select_llm (model_type cfg) of
                  Inl e \<Rightarrow> ([], Some e)
                | Inr llm \<Rightarrow>
                    (case first_error [llm_error w llm cfg a, chain_error w llm a] of
                       Some e \<Rightarrow> ([], Some e)
                     | None \<Rightarrow> query_loop (chain w llm) a inputs))))"

text \<open>The script as a whole: the module is loaded, then \<open>main\<close> runs.\<close>

definition privateGPT ::
  "runtime \<Rightarrow> bool \<Rightarrow> (string \<rightharpoonup> string) \<Rightarrow> string list \<Rightarrow> event list \<times> py_error option" where
  "privateGPT w dotenv_loaded env inputs =
     (case privateGPT_module w dotenv_loaded env of
        Inl e \<Rightarrow> ([], Some e)
      | Inr cfg \<Rightarrow> privateGPT_main w cfg inputs)"


section \<open>ingest.py: the loader registry\<close>

datatype loader_class =
    CSVLoader
  | UnstructuredWordDocumentLoader
  | EverNoteLoader
  | UnstructuredEPubLoader
  | UnstructuredHTMLLoader
  | UnstructuredMarkdownLoader
  | UnstructuredODTLoader
  | UnstructuredPowerPointLoader
  | PyMuPDFLoader
  | TextLoader

text \<open>The dictionary, in insertion order: extension, loader class, keyword arguments.\<close>

definition LOADER_MAPPING :: "(string \<times> loader_class \<times> (string \<times> string) list) list" where
  "LOADER_MAPPING =
     [(''.csv'', CSVLoader, []),
      (''.doc'', UnstructuredWordDocumentLoader, []),
      (''.docx'', UnstructuredWordDocumentLoader, []),
      (''.enex'', EverNoteLoader, []),
      (''.epub'', UnstructuredEPubLoader, []),
      (''.html'', UnstructuredHTMLLoader, []),
      (''.md'', UnstructuredMarkdownLoader, []),
      (''.odt'', UnstructuredODTLoader, []),
      (''.ppt'', UnstructuredPowerPointLoader, []),
      (''.pptx'', UnstructuredPowerPointLoader, []),
      (''.pdf'', PyMuPDFLoader, []),
      (''.txt'', TextLoader, [(''encoding'', ''utf8'')])]"

text \<open>The local \<open>ext\<close> of \<open>load_single_document\<close>.\<close>

definition file_ext :: "string \<Rightarrow> string" where
  "file_ext file_path = CHR ''.'' # py_lower (rsplit_last file_path)"

text \<open>
  \<open>run_loader cls path kwargs\<close> is \<open>cls(path, **kwargs).load()\<close>, the work of the
  library's loader: the Documents, or the exception it raises.
\<close>

definition load_single_document ::
  "(loader_class \<Rightarrow> string \<Rightarrow> (string \<times> string) list \<Rightarrow> py_error + document list)
     \<Rightarrow> string \<Rightarrow> py_error + document list" where
  "load_single_document run_loader file_path =
     (let ext = file_ext file_path
      in case map_of LOADER_MAPPING ext of
           Some (loader_class, loader_args) \<Rightarrow> run_loader loader_class file_path loader_args
         | None \<Rightarrow>
             Inl (ValueError (''Unsupported file extension '' @ [quote] @ ext @ [quote])))"


section \<open>ingest.py: scanning the source directory\<close>

text \<open>
  What ingest.py meets outside itself: \<open>listing\<close> gives, for a directory, the paths the
  pattern \<open>**/*\<close> enumerates below it (every entry at any depth, but for those under
  a name that starts with a dot, each path beginning with the directory as
  \<open>os.path.join\<close> puts it);
  \<open>completion\<close> is the order in which the tasks given to the worker pool complete
  (a rearrangement of the tasks), which is the order \<open>imap_unordered\<close> yields their
  results in; \<open>split_documents\<close> is the text splitter with the script's chunk size
  and overlap; \<open>write_error db texts\<close> is the exception, if any, that embedding the
  chunks \<open>texts\<close> and writing them to the store \<open>db\<close> raises.
\<close>

record world =
  source_directory :: string
  listing :: "string \<Rightarrow> string list"
  run_loader :: "loader_class \<Rightarrow> string \<Rightarrow> (string \<times> string) list \<Rightarrow> py_error + document list"
  completion :: "string list \<Rightarrow> string list"
  split_documents :: "document list \<Rightarrow> document list"
  write_error :: "document list \<Rightarrow> document list \<Rightarrow> py_error option"

text \<open>
  \<open>glob.glob(os.path.join(source_dir, "**/*" + ext), recursive=True)\<close> where file names
  are case-sensitive: of the enumerated paths, those whose name ends with \<open>ext\<close> as it
  is written.
\<close>

definition glob_ext :: "string list \<Rightarrow> string \<Rightarrow> string list" where
  "glob_ext paths ext = filter (suffix ext) paths"

definition all_files :: "string list \<Rightarrow> string list" where
  "all_files paths =
     concat (map (\<lambda>(ext, _). glob_ext paths (py_lower ext) @ glob_ext paths (py_upper ext))
               LOADER_MAPPING)"

definition filtered_files :: "string list \<Rightarrow> string list \<Rightarrow> string list" where
  "filtered_files paths ignored_files =
     filter (\<lambda>file_path. file_path \<notin> set ignored_files) (all_files paths)"

text \<open>
  The loop over the results of the pool: \<open>results.extend(docs)\<close> for each result that
  arrives; a task that raised makes the iteration raise the same exception.
\<close>

fun collect :: "document list \<Rightarrow> (py_error + document list) list \<Rightarrow> py_error + document list" where
  "collect results [] = Inr results"
| "collect results (Inl e # rs) = Inl e"
| "collect results (Inr docs # rs) = collect (results @ docs) rs"

definition load_documents :: "world \<Rightarrow> string \<Rightarrow> string list \<Rightarrow> py_error + document list" where
  "load_documents w source_dir ignored_files =
     collect []
       (map (load_single_document (run_loader w))
          (completion w (filtered_files (listing w source_dir) ignored_files)))"


section \<open>ingest.py: the ingestion run\<close>

text \<open>
  The lines the run prints and the calls it makes on the store: \<open>SplitDocuments\<close> is the
  call of the text splitter, \<open>AddDocuments n\<close> the embedding and writing of \<open>n\<close> chunks
  (\<open>db.add_documents\<close> or \<open>Chroma.from_documents\<close>) when it returns, \<open>Persist\<close> is
  \<open>db.persist()\<close>.
\<close>

datatype ingest_event =
    SayAppending
  | SayCreating
  | SayLoading string
  | SayNoNew
  | SayLoaded nat string
  | SaySplit nat
  | SayEmbedding
  | SplitDocuments
  | AddDocuments nat
  | Persist
  | SayComplete

definition process_documents ::
  "world \<Rightarrow> string list \<Rightarrow> ingest_event list \<times> (py_error + document list)" where
  "process_documents w ignored_files =
     (case load_documents w (source_directory w) ignored_files of
        Inl e \<Rightarrow> ([SayLoading (source_directory w)], Inl e)
      | Inr documents \<Rightarrow>
          if documents = []
          then ([SayLoading (source_directory w), SayNoNew], Inl (SystemExit 0))
          else
            (let texts = split_documents w documents
             in ([SayLoading (source_directory w),
                  SayLoaded (length documents) (source_directory w),
                  SplitDocuments, SaySplit (length texts)],
                 Inr texts)))"

text \<open>
  The persisted store is the list of its records, each a chunk with its metadata (the
  vector of a record is computed from its text by the embedding model and is not
  modelled).
\<close>

definition does_vectorstore_exist :: "document list \<Rightarrow> bool" where
  "does_vectorstore_exist db = (map page_content db \<noteq> [])"

text \<open>\<open>[metadata['source'] for metadata in collection['metadatas']]\<close>\<close>

fun stored_sources :: "(string \<times> string) list list \<Rightarrow> py_error + string list" where
  "stored_sources [] = Inr []"
| "stored_sources (md # mds) =
     (case metadata_source md of
        Inl e \<Rightarrow> Inl e
      | Inr src \<Rightarrow> (case stored_sources mds of Inl e \<Rightarrow> Inl e | Inr srcs \<Rightarrow> Inr (src # srcs)))"

text \<open>
  \<open>main\<close> of ingest.py, on the store as it is found: the events, the store as it is left
  and the exception that ended the run (\<open>SystemExit 0\<close> for \<open>exit(0)\<close>, \<open>None\<close> for a
  normal return). The embeddings, the Chroma client and the store object are taken to
  be built without an exception; a write that raises ends the run and is taken to
  leave the records as they were.
\<close>

definition ingest_main ::
  "world \<Rightarrow> document list \<Rightarrow> ingest_event list \<times> document list \<times> py_error option" where
  "ingest_main w db =
     (if does_vectorstore_exist db then
        (case stored_sources (map metadata db) of
           Inl e \<Rightarrow> ([SayAppending], db, Some e)
         | Inr ignored \<Rightarrow>
             (case process_documents w ignored of
                (ev, Inl e) \<Rightarrow> (SayAppending # ev, db, Some e)
              | (ev, Inr texts) \<Rightarrow>
                  (case write_error w db texts of
                     Some e \<Rightarrow> (SayAppending # ev @ [SayEmbedding], db, Some e)
                   | None \<Rightarrow>
                       (SayAppending # ev @ [SayEmbedding, AddDocuments (length texts),
                          Persist, SayComplete],
                        db @ texts, None))))
      else
        (case process_documents w [] of
           (ev, Inl e) \<Rightarrow> (SayCreating # ev, db, Some e)
         | (ev, Inr texts) \<Rightarrow>
             (case write_error w db texts of
                Some e \<Rightarrow> (SayCreating # ev @ [SayEmbedding], db, Some e)
              | None \<Rightarrow>
                  (SayCreating # ev @ [SayEmbedding, AddDocuments (length texts), Persist,
                     SayComplete],
                   texts, None))))"


section \<open>Example inputs\<close>

text \<open>Configurations, environments, stores and file systems used in the examples below.\<close>

definition flags_off :: args where
  "flags_off = \<lparr>hide_source = False, mute_stream = False\<rparr>"

definition langchain_runtime :: runtime where
  "langchain_runtime =
     \<lparr>llms_exports = [''GPT4All'', ''LlamaCpp''], parsed_arguments = Inr flags_off,
      embeddings_error = (\<lambda>n. None), client_error = (\<lambda>d. None), store_error = (\<lambda>d. None),
      retriever_error = (\<lambda>k. None), llm_error = (\<lambda>llm cfg a. None),
      chain_error = (\<lambda>llm a. None), chain = (\<lambda>llm q. Inr (''answer'', []))\<rparr>"

definition respelled_runtime :: runtime where
  "respelled_runtime = langchain_runtime\<lparr>llms_exports := [''GPT4All'', ''Llamacpp'']\<rparr>"

definition full_env :: "string \<rightharpoonup> string" where
  "full_env =
     [''PERSIST_DIRECTORY'' \<mapsto> ''db'', ''EMBEDDINGS_MODEL_NAME'' \<mapsto> ''bge'',
      ''MODEL_TYPE'' \<mapsto> ''GPT4ALL'', ''MODEL_PATH'' \<mapsto> ''model.bin'',
      ''MODEL_N_CTX'' \<mapsto> ''1000'', ''MODEL_N_BATCH'' \<mapsto> ''10'',
      ''TARGET_SOURCE_CHUNKS'' \<mapsto> ''3'']"

definition foo_env :: "string \<rightharpoonup> string" where
  "foo_env = full_env(''MODEL_TYPE'' \<mapsto> ''Foo'')"

definition octal_env :: "string \<rightharpoonup> string" where
  "octal_env =
     [''PERSIST_DIRECTORY'' \<mapsto> ''db'', ''MODEL_N_BATCH'' \<mapsto> ''10'',
      ''TARGET_SOURCE_CHUNKS'' \<mapsto> ''10'']"

definition bad_digit_env :: "string \<rightharpoonup> string" where
  "bad_digit_env =
     [''PERSIST_DIRECTORY'' \<mapsto> ''db'', ''MODEL_N_BATCH'' \<mapsto> ''18'',
      ''TARGET_SOURCE_CHUNKS'' \<mapsto> ''10'']"

definition seven_chunks_env :: "string \<rightharpoonup> string" where
  "seven_chunks_env =
     [''PERSIST_DIRECTORY'' \<mapsto> ''db'', ''MODEL_N_BATCH'' \<mapsto> ''10'',
      ''TARGET_SOURCE_CHUNKS'' \<mapsto> ''7'']"

definition text_document :: "string \<Rightarrow> document" where
  "text_document file_path = \<lparr>page_content = ''text'', metadata = [(''source'', file_path)]\<rparr>"

definition no_empty_write :: "document list \<Rightarrow> document list \<Rightarrow> py_error option" where
  "no_empty_write db texts = (if texts = [] then Some (External ''no chunk to add'') else None)"

definition reads_all :: "loader_class \<Rightarrow> string \<Rightarrow> (string \<times> string) list \<Rightarrow> py_error + document list" where
  "reads_all cls file_path kwargs = Inr [text_document file_path]"

definition fails_on_b :: "loader_class \<Rightarrow> string \<Rightarrow> (string \<times> string) list \<Rightarrow> py_error + document list" where
  "fails_on_b cls file_path kwargs =
     (if file_path = ''b.txt'' then Inl (External ''cannot decode'')
      else Inr [text_document file_path])"

definition three_files_world :: world where
  "three_files_world =
     \<lparr>source_directory = [], listing = (\<lambda>d. [''a.txt'', ''b.txt'', ''c.txt'']),
      run_loader = reads_all, completion = (\<lambda>fs. fs), split_documents = (\<lambda>ds. ds),
      write_error = no_empty_write\<rparr>"

definition bad_file_world :: world where
  "bad_file_world =
     \<lparr>source_directory = [], listing = (\<lambda>d. [''a.txt'', ''b.txt'']),
      run_loader = fails_on_b, completion = (\<lambda>fs. fs), split_documents = (\<lambda>ds. ds),
      write_error = no_empty_write\<rparr>"

definition empty_root_world :: world where
  "empty_root_world =
     \<lparr>source_directory = ''source_documents'', listing = (\<lambda>d. []),
      run_loader = reads_all, completion = (\<lambda>fs. fs), split_documents = (\<lambda>ds. ds),
      write_error = no_empty_write\<rparr>"

definition stored_a_b :: "document list" where
  "stored_a_b = [text_document ''a.txt'', text_document ''a.txt'', text_document ''b.txt'']"


section \<open>Facts about lists\<close>

lemma dropWhile_all_set:
  assumes "\<forall>x \<in> set (dropWhile P xs). P x"
  shows "\<forall>x \<in> set xs. P x"
proof -
  have "set xs = set (takeWhile P xs) \<union> set (dropWhile P xs)"
    by (metis set_append takeWhile_dropWhile_id)
  with assms show ?thesis
    by (auto dest: set_takeWhileD)
qed

lemma in_set_takeWhile_dropWhile:
  "c \<in> set xs \<Longrightarrow> c \<in> set (takeWhile P xs) \<or> c \<in> set (dropWhile P xs)"
proof -
  assume "c \<in> set xs"
  then have "c \<in> set (takeWhile P xs @ dropWhile P xs)" by simp
  then show ?thesis by (simp only: set_append Un_iff)
qed

lemma takeWhile_stops:
  "\<forall>x \<in> set xs. P x \<Longrightarrow> \<not> P y \<Longrightarrow> takeWhile P (xs @ y # ys) = xs"
  by (induction xs) auto

lemma takeWhile_whole: "\<forall>x \<in> set xs. P x \<Longrightarrow> takeWhile P xs = xs"
  by (induction xs) auto

lemma distinct_singleton: "distinct xs \<Longrightarrow> set xs = {x} \<Longrightarrow> xs = [x]"
proof (cases xs)
  case Nil
  assume "set xs = {x}"
  with Nil show ?thesis by simp
next
  case (Cons y ys)
  assume d: "distinct xs" and s: "set xs = {x}"
  from s Cons have y: "y = x" by auto
  have "ys = []"
  proof (cases ys)
    case Nil
    then show ?thesis .
  next
    case (Cons z zs)
    with s \<open>xs = y # ys\<close> have "z = x" by auto
    with d \<open>xs = y # ys\<close> y Cons show ?thesis by simp
  qed
  with Cons y show ?thesis by simp
qed

lemma concat_map_pairs:
  "concat (map (\<lambda>(ext, _). g (l ext) @ g (u ext)) m) =
   concat (map g (concat (map (\<lambda>(ext, _). [l ext, u ext]) m)))"
  by (induction m) auto

lemma suffix_of_longer_tail:
  assumes "length e \<le> length x"
  shows "suffix e (d @ x) = suffix e x"
proof
  assume "suffix e (d @ x)"
  then consider "suffix e x" | xs where "suffix xs d" "e = xs @ x"
    by (auto simp: suffix_append)
  then show "suffix e x"
  proof cases
    case 1 then show ?thesis .
  next
    case 2
    with assms have "xs = []" by simp
    with 2 show ?thesis by simp
  qed
next
  assume "suffix e x"
  then show "suffix e (d @ x)" by (simp add: suffix_appendI)
qed


section \<open>The query loop: blank input and the sentinel\<close>

lemma py_strip_blank: "(py_strip s = []) = (\<forall>c \<in> set s. is_space c)"
proof
  assume "py_strip s = []"
  then have "\<forall>x \<in> set (dropWhile is_space s). is_space x"
    by (simp add: py_strip_def)
  then show "\<forall>c \<in> set s. is_space c"
    by (rule dropWhile_all_set)
next
  assume "\<forall>c \<in> set s. is_space c"
  then have nil: "dropWhile is_space s = []"
    by (induction s) simp_all
  show "py_strip s = []"
    unfolding py_strip_def nil by simp
qed

text \<open>
  C6. A query that is empty or made of whitespace only is a no-op iteration: the loop
  prompts, calls neither the chain nor a print, and goes on with the next prompt, so
  that the run is one \<open>Prompt\<close> followed by the run on the remaining input.
\<close>

theorem blank_query_is_noop:
  assumes "\<forall>c \<in> set query. is_space c"
  shows "query_loop qa a (query # rest) =
           (Prompt # fst (query_loop qa a rest),
            snd (query_loop qa a rest))"
proof -
  have blank: "py_strip query = []"
    using assms by (simp add: py_strip_blank)
  have "query \<noteq> ''exit''"
    using assms by (auto simp: is_space_def)
  with blank show ?thesis
    by (simp split: prod.splits)
qed

theorem blank_query_is_noop_witness:
  "list_all is_space ''  '' \<and>
   query_loop (\<lambda>q. Inr (''answer'', [])) \<lparr>hide_source = False, mute_stream = False\<rparr>
     [''  '', ''exit''] = ([Prompt, Prompt], None)"
proof -
  have h: "\<forall>c \<in> set ''  ''. is_space c"
    by (simp add: is_space_def)
  show ?thesis
    using h blank_query_is_noop [OF h, of "\<lambda>q. Inr (''answer'', [])"
        "\<lparr>hide_source = False, mute_stream = False\<rparr>" "[''exit'']"]
    by (simp add: list_all_iff)
qed





section \<open>The script before the loop\<close>

lemma imports_succeed:
  "''GPT4All'' \<in> set (llms_exports w) \<Longrightarrow> ''Llamacpp'' \<in> set (llms_exports w) \<Longrightarrow>
   import_from ''langchain.llms'' (llms_exports w) [''GPT4All'', ''Llamacpp''] = None"
  by simp

lemma langchain_import_fails:
  "privateGPT_module langchain_runtime dotenv_loaded env =
     Inl (ImportError ''Llamacpp'' ''langchain.llms'')"
  by (simp add: privateGPT_module_def langchain_runtime_def)

lemma respelled_imports:
  "''GPT4All'' \<in> set (llms_exports respelled_runtime)"
  "''Llamacpp'' \<in> set (llms_exports respelled_runtime)"
  by (simp_all add: respelled_runtime_def langchain_runtime_def)

lemma respelled_fields:
  "parsed_arguments respelled_runtime = Inr flags_off"
  "embeddings_error respelled_runtime n = None"
  "client_error respelled_runtime d = None"
  "store_error respelled_runtime d = None"
  "retriever_error respelled_runtime k = None"
  "llm_error respelled_runtime llm cfg a = None"
  "chain_error respelled_runtime llm a = None"
  "chain respelled_runtime llm q = Inr (''answer'', [])"
  by (simp_all add: respelled_runtime_def langchain_runtime_def)

lemma unsupported_model_type_at_match:
  assumes "parsed_arguments w = Inr a"
    and "first_error
           [embeddings_error w (embeddings_model_name cfg), client_error w (persist_directory cfg),
            store_error w (persist_directory cfg),
            retriever_error w (target_source_chunks cfg)] = None"
    and "model_type cfg \<noteq> Some ''LlamaCpp''" and "model_type cfg \<noteq> Some ''GPT4ALL''"
  shows "privateGPT_main w cfg inputs =
           ([], Some (PyException
              (''Model Type '' @ py_format (model_type cfg) @
               '' is not supported. Please choose either 'LlamaCpp' or 'GPT4All'' @ [quote])))"
  using assms by (simp add: privateGPT_main_def select_llm_def)

lemma foo_env_module:
  "privateGPT_module respelled_runtime True foo_env =
     Inr \<lparr>embeddings_model_name = Some ''bge'', persist_directory = Some ''db'',
          model_type = Some ''Foo'', model_path = Some ''model.bin'',
          model_n_ctx = Some ''1000'', model_n_batch = 8, target_source_chunks = 3\<rparr>"
proof -
  have "py_int_str ''10'' 8 = Inr 8" "py_int_str ''3'' 4 = Inr 3"
    by code_simp+
  then show ?thesis
    by (simp add: privateGPT_module_def constants_module_def py_int_def foo_env_def
        full_env_def respelled_imports)
qed

text \<open>
  C3. With the model type \<open>Foo\<close> and the names \<open>langchain.llms\<close> exports spelled
  \<open>GPT4All\<close> and \<open>LlamaCpp\<close>, the script ends on line 11 with the \<open>ImportError\<close> of the name
  \<open>Llamacpp\<close>, before \<open>main\<close>. Where the library exports the name as the script spells it
  and the objects before the \<open>match\<close> are built, the \<open>match\<close> raises the exception that
  names \<open>Foo\<close>, and no prompt has been shown.
\<close>

theorem unsupported_model_type_import_error:
  "privateGPT langchain_runtime True foo_env [''hello'', ''exit''] =
     ([], Some (ImportError ''Llamacpp'' ''langchain.llms'')) \<and>
   privateGPT respelled_runtime True foo_env [''hello'', ''exit''] =
     ([], Some (PyException
        (''Model Type Foo is not supported. Please choose either 'LlamaCpp' or 'GPT4All'' @
         [quote])))"
  by (simp add: privateGPT_def langchain_import_fails foo_env_module
      unsupported_model_type_at_match respelled_fields py_format_def)


section \<open>The numerals of the configuration\<close>

text \<open>A string that \<open>int\<close> accepts is made of the characters of a literal only.\<close>

lemma strip_sign_chars:
  "strip_sign s = (sg, r) \<Longrightarrow> c \<in> set s \<Longrightarrow> c = CHR ''+'' \<or> c = CHR ''-'' \<or> c \<in> set r"
  by (cases s) (auto simp: strip_sign_def split: if_splits)

lemma strip_base_prefix_chars:
  "c \<in> set s \<Longrightarrow> c \<in> set ''0oOxXbB_'' \<or> c \<in> set (strip_base_prefix base s)"
proof (cases "has_base_prefix base s")
  case False
  assume "c \<in> set s"
  with False show ?thesis by (simp add: strip_base_prefix_def)
next
  case True
  assume c: "c \<in> set s"
  from True obtain z p r where s: "s = z # p # r"
    by (auto simp: has_base_prefix_def split: list.splits)
  with True have zp: "z \<in> set ''0oOxXbB_''" "p \<in> set ''0oOxXbB_''"
    by (auto simp: has_base_prefix_def)
  show ?thesis
  proof (cases r)
    case Nil
    with c s zp show ?thesis by auto
  next
    case (Cons d r')
    with True s have "strip_base_prefix base s = (if d = CHR ''_'' then r' else d # r')"
      by (simp add: strip_base_prefix_def)
    with c s zp Cons show ?thesis by auto
  qed
qed

lemma py_int_str_chars:
  assumes ok: "py_int_str s base = Inr n" and c: "c \<in> set s"
  shows "int_space c \<or> c = CHR ''+'' \<or> c = CHR ''-'' \<or> c \<in> set ''0oOxXbB_''
         \<or> is_digit_in base c"
proof -
  let ?P = "\<lambda>c. is_digit_in base c \<or> c = CHR ''_''"
  obtain sg s2 where sg: "strip_sign (dropWhile int_space s) = (sg, s2)"
    by (cases "strip_sign (dropWhile int_space s)")
  let ?s3 = "strip_base_prefix base s2"
  from ok sg have rest: "dropWhile int_space (dropWhile ?P ?s3) = []"
    by (simp add: py_int_str_def Let_def split: if_splits)
  have "c \<in> set (takeWhile int_space s) \<or> c \<in> set (dropWhile int_space s)"
    using c by (rule in_set_takeWhile_dropWhile)
  then show ?thesis
  proof
    assume "c \<in> set (takeWhile int_space s)"
    then show ?thesis by (auto dest: set_takeWhileD)
  next
    assume "c \<in> set (dropWhile int_space s)"
    from strip_sign_chars [OF sg this]
    consider "c = CHR ''+'' \<or> c = CHR ''-''" | "c \<in> set s2" by blast
    then show ?thesis
    proof cases
      case 1 then show ?thesis by blast
    next
      case 2
      from strip_base_prefix_chars [OF 2, of base]
      consider "c \<in> set ''0oOxXbB_''" | "c \<in> set ?s3" by blast
      then show ?thesis
      proof cases
        case 1 then show ?thesis by blast
      next
        case 2
        have "c \<in> set (takeWhile ?P ?s3) \<or> c \<in> set (dropWhile ?P ?s3)"
          using 2 by (rule in_set_takeWhile_dropWhile)
        then show ?thesis
        proof
          assume "c \<in> set (takeWhile ?P ?s3)"
          then have "?P c" by (rule set_takeWhileD [THEN conjunct2])
          then show ?thesis by auto
        next
          assume "c \<in> set (dropWhile ?P ?s3)"
          moreover from rest have "\<forall>x \<in> set (dropWhile ?P ?s3). int_space x"
            by (simp only: dropWhile_eq_Nil_conv)
          ultimately show ?thesis by blast
        qed
      qed
    qed
  qed
qed

lemma py_int_str_rejects:
  assumes "c \<in> set s" "\<not> int_space c" "c \<noteq> CHR ''+''" "c \<noteq> CHR ''-''"
    "c \<notin> set ''0oOxXbB_''" "\<not> is_digit_in base c"
  shows "py_int_str s base = Inl (InvalidLiteral base s)"
proof (cases "py_int_str s base")
  case (Inr n)
  from py_int_str_chars [OF Inr assms(1)] assms show ?thesis by blast
next
  case (Inl e)
  then show ?thesis
    by (auto simp: py_int_str_def Let_def split: prod.splits if_splits)
qed

lemma py_int_10_base8: "py_int_str ''10'' 8 = Inr 8"
  by code_simp

lemma py_int_10_base4: "py_int_str ''10'' 4 = Inr 4"
  by code_simp

lemma digit_8_9_not_octal:
  assumes "c = CHR ''8'' \<or> c = CHR ''9''" and "c \<in> set s"
  shows "py_int_str s 8 = Inl (InvalidLiteral 8 s)"
proof (rule py_int_str_rejects [OF assms(2)])
  show "\<not> int_space c" using assms(1) by (auto simp: int_space_def)
  show "c \<noteq> CHR ''+''" "c \<noteq> CHR ''-''" using assms(1) by auto
  show "c \<notin> set ''0oOxXbB_''" using assms(1) by auto
  show "\<not> is_digit_in 8 c" using assms(1) by (auto simp: is_digit_in_def digit_val_def)
qed

lemma digit_4_to_9_not_quaternary:
  assumes "c \<in> set ''456789''" and "c \<in> set s"
  shows "py_int_str s 4 = Inl (InvalidLiteral 4 s)"
proof (rule py_int_str_rejects [OF assms(2)])
  show "\<not> int_space c" using assms(1) by (auto simp: int_space_def)
  show "c \<noteq> CHR ''+''" "c \<noteq> CHR ''-''" using assms(1) by auto
  show "c \<notin> set ''0oOxXbB_''" using assms(1) by auto
  show "\<not> is_digit_in 4 c" using assms(1) by (auto simp: is_digit_in_def digit_val_def)
qed

text \<open>
  The two numerals are not both read in base 8: where the imports succeed, with \<open>10\<close>
  for both options the batch size is 8 but the number of retrieved chunks is 4, and base
  8 gives 8. With the names \<open>langchain.llms\<close> exports spelled \<open>GPT4All\<close> and \<open>LlamaCpp\<close> the
  import ends on line 11 and neither numeral is read.
\<close>

theorem chunk_count_not_octal_counterexample:
  "privateGPT_module langchain_runtime True octal_env =
     Inl (ImportError ''Llamacpp'' ''langchain.llms'') \<and>
   map_sum id model_n_batch (privateGPT_module respelled_runtime True octal_env) = Inr 8 \<and>
   map_sum id target_source_chunks (privateGPT_module respelled_runtime True octal_env) = Inr 4 \<and>
   py_int (octal_env ''TARGET_SOURCE_CHUNKS'') 8 = Inr 8 \<and>
   map_sum id target_source_chunks (privateGPT_module respelled_runtime True octal_env) \<noteq>
     py_int (octal_env ''TARGET_SOURCE_CHUNKS'') 8"
proof -
  have "privateGPT_module respelled_runtime True octal_env =
     Inr \<lparr>embeddings_model_name = None, persist_directory = Some ''db'', model_type = None,
          model_path = None, model_n_ctx = None, model_n_batch = 8,
          target_source_chunks = 4\<rparr>"
    by (simp add: privateGPT_module_def constants_module_def octal_env_def py_int_def
        py_int_10_base8 py_int_10_base4 respelled_imports)
  moreover have "py_int (octal_env ''TARGET_SOURCE_CHUNKS'') 8 = Inr 8"
    by (simp add: octal_env_def py_int_def py_int_10_base8)
  ultimately show ?thesis
    by (simp add: langchain_import_fails)
qed

text \<open>
  C10, amended. Where the imports of the script succeed, the store location is set and
  the .env file was loaded: the batch size is the value \<open>int\<close> reads in base 8 and the
  number of retrieved chunks the value it reads in base 4, neither a decimal with a
  default; for the value \<open>10\<close> the batch size is 8 and the chunk count 4; a batch size
  containing the digit 8 or 9 is rejected by \<open>int\<close> at import time, and so is, after any
  batch size that was accepted, a chunk count containing a digit from 4 to 9.
\<close>

theorem batch_octal_chunks_quaternary:
  assumes "''GPT4All'' \<in> set (llms_exports w)" and "''Llamacpp'' \<in> set (llms_exports w)"
    and "env ''PERSIST_DIRECTORY'' = Some d"
  shows
   "(privateGPT_module w True env = Inr cfg \<longrightarrow>
       py_int (env ''MODEL_N_BATCH'') 8 = Inr (model_n_batch cfg) \<and>
       py_int (env ''TARGET_SOURCE_CHUNKS'') 4 = Inr (target_source_chunks cfg)) \<and>
    (env ''MODEL_N_BATCH'' = Some ''10'' \<and> env ''TARGET_SOURCE_CHUNKS'' = Some ''10'' \<longrightarrow>
       (\<exists>c. privateGPT_module w True env = Inr c \<and> model_n_batch c = 8
          \<and> target_source_chunks c = 4)) \<and>
    (env ''MODEL_N_BATCH'' = Some s \<and> (CHR ''8'' \<in> set s \<or> CHR ''9'' \<in> set s) \<longrightarrow>
       privateGPT_module w True env = Inl (InvalidLiteral 8 s)) \<and>
    (env ''MODEL_N_BATCH'' = Some b \<and> py_int_str b 8 = Inr n
       \<and> env ''TARGET_SOURCE_CHUNKS'' = Some t \<and> (\<exists>c \<in> set ''456789''. c \<in> set t) \<longrightarrow>
       privateGPT_module w True env = Inl (InvalidLiteral 4 t))"
proof -
  note imp = imports_succeed [OF assms(1,2)]
  have c1: "privateGPT_module w True env = Inr cfg \<longrightarrow>
       py_int (env ''MODEL_N_BATCH'') 8 = Inr (model_n_batch cfg) \<and>
       py_int (env ''TARGET_SOURCE_CHUNKS'') 4 = Inr (target_source_chunks cfg)"
    using assms(3) imp
    by (auto simp: privateGPT_module_def constants_module_def split: sum.splits)
  have c2: "env ''MODEL_N_BATCH'' = Some ''10'' \<and> env ''TARGET_SOURCE_CHUNKS'' = Some ''10'' \<longrightarrow>
       (\<exists>c. privateGPT_module w True env = Inr c \<and> model_n_batch c = 8
          \<and> target_source_chunks c = 4)"
    using assms(3) imp
    by (simp add: privateGPT_module_def constants_module_def py_int_def
        py_int_10_base8 py_int_10_base4)
  have c3: "env ''MODEL_N_BATCH'' = Some s \<and> (CHR ''8'' \<in> set s \<or> CHR ''9'' \<in> set s) \<longrightarrow>
       privateGPT_module w True env = Inl (InvalidLiteral 8 s)"
  proof
    assume h: "env ''MODEL_N_BATCH'' = Some s \<and> (CHR ''8'' \<in> set s \<or> CHR ''9'' \<in> set s)"
    then have "py_int_str s 8 = Inl (InvalidLiteral 8 s)"
      using digit_8_9_not_octal by blast
    with assms(3) imp h show "privateGPT_module w True env = Inl (InvalidLiteral 8 s)"
      by (simp add: privateGPT_module_def constants_module_def py_int_def)
  qed
  have c4: "env ''MODEL_N_BATCH'' = Some b \<and> py_int_str b 8 = Inr n
       \<and> env ''TARGET_SOURCE_CHUNKS'' = Some t \<and> (\<exists>c \<in> set ''456789''. c \<in> set t) \<longrightarrow>
       privateGPT_module w True env = Inl (InvalidLiteral 4 t)"
  proof
    assume h: "env ''MODEL_N_BATCH'' = Some b \<and> py_int_str b 8 = Inr n
       \<and> env ''TARGET_SOURCE_CHUNKS'' = Some t \<and> (\<exists>c \<in> set ''456789''. c \<in> set t)"
    then have "py_int_str t 4 = Inl (InvalidLiteral 4 t)"
      using digit_4_to_9_not_quaternary by blast
    with assms(3) imp h show "privateGPT_module w True env = Inl (InvalidLiteral 4 t)"
      by (simp add: privateGPT_module_def constants_module_def py_int_def)
  qed
  from c1 c2 c3 c4 show ?thesis
    by (intro conjI)
qed

theorem batch_octal_chunks_quaternary_witness:
  "''GPT4All'' \<in> set (llms_exports respelled_runtime) \<and>
   ''Llamacpp'' \<in> set (llms_exports respelled_runtime) \<and>
   octal_env ''PERSIST_DIRECTORY'' = Some ''db'' \<and>
   bad_digit_env ''MODEL_N_BATCH'' = Some ''18'' \<and> CHR ''8'' \<in> set ''18'' \<and>
   privateGPT_module respelled_runtime True bad_digit_env = Inl (InvalidLiteral 8 ''18'') \<and>
   seven_chunks_env ''MODEL_N_BATCH'' = Some ''10'' \<and> py_int_str ''10'' 8 = Inr 8 \<and>
   seven_chunks_env ''TARGET_SOURCE_CHUNKS'' = Some ''7'' \<and>
   privateGPT_module respelled_runtime True seven_chunks_env = Inl (InvalidLiteral 4 ''7'') \<and>
   privateGPT_module respelled_runtime True octal_env =
     Inr \<lparr>embeddings_model_name = None, persist_directory = Some ''db'', model_type = None,
          model_path = None, model_n_ctx = None, model_n_batch = 8,
          target_source_chunks = 4\<rparr> \<and>
   py_int (octal_env ''MODEL_N_BATCH'') 8 = Inr 8 \<and>
   py_int (octal_env ''TARGET_SOURCE_CHUNKS'') 4 = Inr 4"
proof -
  note i = respelled_imports
  have p1: "octal_env ''PERSIST_DIRECTORY'' = Some ''db''" by (simp add: octal_env_def)
  have p2: "bad_digit_env ''PERSIST_DIRECTORY'' = Some ''db''" by (simp add: bad_digit_env_def)
  have p3: "seven_chunks_env ''PERSIST_DIRECTORY'' = Some ''db''"
    by (simp add: seven_chunks_env_def)
  have m: "privateGPT_module respelled_runtime True octal_env =
     Inr \<lparr>embeddings_model_name = None, persist_directory = Some ''db'', model_type = None,
          model_path = None, model_n_ctx = None, model_n_batch = 8,
          target_source_chunks = 4\<rparr>"
    by (simp add: privateGPT_module_def constants_module_def octal_env_def py_int_def
        py_int_10_base8 py_int_10_base4 respelled_imports)
  have a: "py_int (octal_env ''MODEL_N_BATCH'') 8 = Inr 8 \<and>
      py_int (octal_env ''TARGET_SOURCE_CHUNKS'') 4 = Inr 4"
    using batch_octal_chunks_quaternary [where w = respelled_runtime and env = octal_env
        and d = "''db''", OF i p1] m
    by simp
  have b: "privateGPT_module respelled_runtime True bad_digit_env = Inl (InvalidLiteral 8 ''18'')"
    using batch_octal_chunks_quaternary [where w = respelled_runtime and env = bad_digit_env
        and d = "''db''" and s = "''18''", OF i p2]
    by (simp add: bad_digit_env_def)
  have c: "privateGPT_module respelled_runtime True seven_chunks_env = Inl (InvalidLiteral 4 ''7'')"
    using batch_octal_chunks_quaternary [where w = respelled_runtime
        and env = seven_chunks_env and d = "''db''" and b = "''10''" and n = 8 and t = "''7''",
        OF i p3]
    by (simp add: seven_chunks_env_def py_int_10_base8)
  show ?thesis
    using i p1 m a b c
    by (simp add: bad_digit_env_def seven_chunks_env_def py_int_10_base8)
qed


section \<open>Options missing from the environment\<close>

lemma names_persist_directory:
  "contains ''PERSIST_DIRECTORY''
     (error_message (PyException ''Please set the PERSIST_DIRECTORY environment variable''))"
  by code_simp

lemma type_error_names_no_option:
  "\<not> contains ''MODEL_N_BATCH''
     (error_message (TypeError ''int() can't convert non-string with explicit base''))"
  "\<not> contains ''TARGET_SOURCE_CHUNKS''
     (error_message (TypeError ''int() can't convert non-string with explicit base''))"
  by code_simp+

lemma none_model_type_names_no_option:
  "\<not> contains ''MODEL_TYPE''
     (error_message (PyException
        (''Model Type None is not supported. Please choose either 'LlamaCpp' or 'GPT4All'' @
         [quote])))"
  by code_simp

lemma import_error_names_no_option:
  "\<not> contains ''PERSIST_DIRECTORY'' (error_message (ImportError ''Llamacpp'' ''langchain.llms''))"
  "\<not> contains ''EMBEDDINGS_MODEL_NAME'' (error_message (ImportError ''Llamacpp'' ''langchain.llms''))"
  "\<not> contains ''MODEL_TYPE'' (error_message (ImportError ''Llamacpp'' ''langchain.llms''))"
  "\<not> contains ''MODEL_PATH'' (error_message (ImportError ''Llamacpp'' ''langchain.llms''))"
  "\<not> contains ''MODEL_N_CTX'' (error_message (ImportError ''Llamacpp'' ''langchain.llms''))"
  "\<not> contains ''MODEL_N_BATCH'' (error_message (ImportError ''Llamacpp'' ''langchain.llms''))"
  "\<not> contains ''TARGET_SOURCE_CHUNKS'' (error_message (ImportError ''Llamacpp'' ''langchain.llms''))"
  by code_simp+

lemma octal_3: "py_int_str ''3'' 4 = Inr 3"
  by code_simp

lemma respelled_module:
  assumes "env ''PERSIST_DIRECTORY'' = Some d" and "env ''MODEL_N_BATCH'' = Some ''10''"
    and "env ''TARGET_SOURCE_CHUNKS'' = Some ''3''"
  shows "privateGPT_module respelled_runtime True env =
     Inr \<lparr>embeddings_model_name = env ''EMBEDDINGS_MODEL_NAME'',
          persist_directory = env ''PERSIST_DIRECTORY'', model_type = env ''MODEL_TYPE'',
          model_path = env ''MODEL_PATH'', model_n_ctx = env ''MODEL_N_CTX'',
          model_n_batch = 8, target_source_chunks = 3\<rparr>"
  using assms
  by (simp add: privateGPT_module_def constants_module_def py_int_def py_int_10_base8 octal_3
      respelled_imports)

lemma respelled_main_gpt4all:
  "model_type cfg = Some ''GPT4ALL'' \<Longrightarrow>
   privateGPT_main respelled_runtime cfg [''exit''] = ([Prompt], None)"
  by (simp add: privateGPT_main_def select_llm_def respelled_fields)

text \<open>
  The script with one option missing from an otherwise complete environment. With the
  names \<open>langchain.llms\<close> exports spelled \<open>GPT4All\<close> and \<open>LlamaCpp\<close>, the script ends with the
  \<open>ImportError\<close> of line 11, whose message names no option, also when the store location
  is the missing one. Where the library exports the name as the script spells it and
  builds every object: without the batch size or the number of chunks the import ends
  with a \<open>TypeError\<close> that names no option; without the model type \<open>main\<close> ends at the
  \<open>match\<close> with a message about the value \<open>None\<close>; without the embeddings model name, the
  model path or the context size nothing fails and the loop is reached.
\<close>

theorem missing_options_counterexample:
  "privateGPT langchain_runtime True (full_env(''PERSIST_DIRECTORY'' := None)) [''exit''] =
     ([], Some (ImportError ''Llamacpp'' ''langchain.llms'')) \<and>
   \<not> contains ''PERSIST_DIRECTORY''
     (error_message (ImportError ''Llamacpp'' ''langchain.llms'')) \<and>
   privateGPT langchain_runtime True (full_env(''MODEL_N_BATCH'' := None)) [''exit''] =
     ([], Some (ImportError ''Llamacpp'' ''langchain.llms'')) \<and>
   \<not> contains ''MODEL_N_BATCH''
     (error_message (ImportError ''Llamacpp'' ''langchain.llms'')) \<and>
   privateGPT respelled_runtime True (full_env(''MODEL_N_BATCH'' := None)) [''exit''] =
     ([], Some (TypeError ''int() can't convert non-string with explicit base'')) \<and>
   \<not> contains ''MODEL_N_BATCH''
     (error_message (TypeError ''int() can't convert non-string with explicit base'')) \<and>
   privateGPT respelled_runtime True (full_env(''TARGET_SOURCE_CHUNKS'' := None)) [''exit''] =
     ([], Some (TypeError ''int() can't convert non-string with explicit base'')) \<and>
   \<not> contains ''TARGET_SOURCE_CHUNKS''
     (error_message (TypeError ''int() can't convert non-string with explicit base'')) \<and>
   privateGPT respelled_runtime True (full_env(''MODEL_TYPE'' := None)) [''exit''] =
     ([], Some (PyException
        (''Model Type None is not supported. Please choose either 'LlamaCpp' or 'GPT4All'' @
         [quote]))) \<and>
   \<not> contains ''MODEL_TYPE''
     (error_message (PyException
        (''Model Type None is not supported. Please choose either 'LlamaCpp' or 'GPT4All'' @
         [quote]))) \<and>
   privateGPT respelled_runtime True (full_env(''EMBEDDINGS_MODEL_NAME'' := None)) [''exit''] =
     ([Prompt], None) \<and>
   privateGPT respelled_runtime True (full_env(''MODEL_PATH'' := None)) [''exit''] =
     ([Prompt], None) \<and>
   privateGPT respelled_runtime True (full_env(''MODEL_N_CTX'' := None)) [''exit''] =
     ([Prompt], None)"
proof -
  have imp: "privateGPT langchain_runtime True env [''exit''] =
      ([], Some (ImportError ''Llamacpp'' ''langchain.llms''))" for env
    by (simp add: privateGPT_def langchain_import_fails)
  have batch: "privateGPT respelled_runtime True (full_env(''MODEL_N_BATCH'' := None)) [''exit''] =
      ([], Some (TypeError ''int() can't convert non-string with explicit base''))"
    by (simp add: privateGPT_def privateGPT_module_def constants_module_def py_int_def
        full_env_def respelled_imports)
  have chunks:
    "privateGPT respelled_runtime True (full_env(''TARGET_SOURCE_CHUNKS'' := None)) [''exit''] =
      ([], Some (TypeError ''int() can't convert non-string with explicit base''))"
    by (simp add: privateGPT_def privateGPT_module_def constants_module_def py_int_def
        full_env_def respelled_imports py_int_10_base8)
  have mtype: "privateGPT respelled_runtime True (full_env(''MODEL_TYPE'' := None)) [''exit''] =
      ([], Some (PyException
        (''Model Type None is not supported. Please choose either 'LlamaCpp' or 'GPT4All'' @
         [quote])))"
    by (simp add: privateGPT_def respelled_module full_env_def
        unsupported_model_type_at_match respelled_fields py_format_def)
  have emb: "privateGPT respelled_runtime True (full_env(''EMBEDDINGS_MODEL_NAME'' := None))
      [''exit''] = ([Prompt], None)"
    by (simp add: privateGPT_def respelled_module full_env_def respelled_main_gpt4all)
  have path: "privateGPT respelled_runtime True (full_env(''MODEL_PATH'' := None)) [''exit''] =
      ([Prompt], None)"
    by (simp add: privateGPT_def respelled_module full_env_def respelled_main_gpt4all)
  have ctx: "privateGPT respelled_runtime True (full_env(''MODEL_N_CTX'' := None)) [''exit''] =
      ([Prompt], None)"
    by (simp add: privateGPT_def respelled_module full_env_def respelled_main_gpt4all)
  show ?thesis
    by (simp only: imp batch chunks mtype emb path ctx type_error_names_no_option
        none_model_type_names_no_option import_error_names_no_option simp_thms)
qed

text \<open>
  C7, amended. Where the imports of the script succeed: when the store location
  \<open>PERSIST_DIRECTORY\<close> is absent from the environment, constants.py raises an exception
  whose message names that option and the script ends with it, before any event of the
  interactive loop. No other option is checked for presence. With the store location
  set and the .env file loaded, an absent batch size, or an absent number of chunks
  after a batch size that was accepted, ends the script at import time with the
  \<open>TypeError\<close> of \<open>int\<close>; removing the embeddings model name, the model type, the model
  path or the context size from the environment does not change whether the import
  succeeds, and each is bound to what the environment holds, \<open>None\<close> when absent.
\<close>

theorem only_store_location_is_checked:
  assumes "''GPT4All'' \<in> set (llms_exports w)" and "''Llamacpp'' \<in> set (llms_exports w)"
  shows
   "(env ''PERSIST_DIRECTORY'' = None \<longrightarrow>
       constants_module env =
         Inl (PyException ''Please set the PERSIST_DIRECTORY environment variable'') \<and>
       privateGPT w dotenv_loaded env inputs =
         ([], Some (PyException ''Please set the PERSIST_DIRECTORY environment variable'')) \<and>
       contains ''PERSIST_DIRECTORY''
         (error_message
            (PyException ''Please set the PERSIST_DIRECTORY environment variable''))) \<and>
    (env ''PERSIST_DIRECTORY'' = Some d \<and> env ''MODEL_N_BATCH'' = None \<longrightarrow>
       privateGPT w True env inputs =
         ([], Some (TypeError ''int() can't convert non-string with explicit base''))) \<and>
    (env ''PERSIST_DIRECTORY'' = Some d \<and> env ''MODEL_N_BATCH'' = Some b
       \<and> py_int_str b 8 = Inr n \<and> env ''TARGET_SOURCE_CHUNKS'' = None \<longrightarrow>
       privateGPT w True env inputs =
         ([], Some (TypeError ''int() can't convert non-string with explicit base''))) \<and>
    (k \<in> {''EMBEDDINGS_MODEL_NAME'', ''MODEL_TYPE'', ''MODEL_PATH'', ''MODEL_N_CTX''} \<longrightarrow>
       isl (privateGPT_module w dotenv_loaded (env(k := None))) =
       isl (privateGPT_module w dotenv_loaded env)) \<and>
    (privateGPT_module w dotenv_loaded env = Inr cfg \<longrightarrow>
       embeddings_model_name cfg = env ''EMBEDDINGS_MODEL_NAME'' \<and>
       model_type cfg = env ''MODEL_TYPE'' \<and> model_path cfg = env ''MODEL_PATH'' \<and>
       model_n_ctx cfg = env ''MODEL_N_CTX'')"
proof -
  note imp = imports_succeed [OF assms]
  have c1: "env ''PERSIST_DIRECTORY'' = None \<longrightarrow>
       constants_module env =
         Inl (PyException ''Please set the PERSIST_DIRECTORY environment variable'') \<and>
       privateGPT w dotenv_loaded env inputs =
         ([], Some (PyException ''Please set the PERSIST_DIRECTORY environment variable'')) \<and>
       contains ''PERSIST_DIRECTORY''
         (error_message
            (PyException ''Please set the PERSIST_DIRECTORY environment variable''))"
    using imp names_persist_directory
    by (simp add: privateGPT_def privateGPT_module_def constants_module_def)
  have c2: "env ''PERSIST_DIRECTORY'' = Some d \<and> env ''MODEL_N_BATCH'' = None \<longrightarrow>
       privateGPT w True env inputs =
         ([], Some (TypeError ''int() can't convert non-string with explicit base''))"
    using imp
    by (simp add: privateGPT_def privateGPT_module_def constants_module_def py_int_def)
  have c3: "env ''PERSIST_DIRECTORY'' = Some d \<and> env ''MODEL_N_BATCH'' = Some b
       \<and> py_int_str b 8 = Inr n \<and> env ''TARGET_SOURCE_CHUNKS'' = None \<longrightarrow>
       privateGPT w True env inputs =
         ([], Some (TypeError ''int() can't convert non-string with explicit base''))"
    using imp
    by (simp add: privateGPT_def privateGPT_module_def constants_module_def py_int_def)
  have c4: "k \<in> {''EMBEDDINGS_MODEL_NAME'', ''MODEL_TYPE'', ''MODEL_PATH'', ''MODEL_N_CTX''} \<longrightarrow>
       isl (privateGPT_module w dotenv_loaded (env(k := None))) =
       isl (privateGPT_module w dotenv_loaded env)"
  proof
    assume "k \<in> {''EMBEDDINGS_MODEL_NAME'', ''MODEL_TYPE'', ''MODEL_PATH'', ''MODEL_N_CTX''}"
    then have "(env(k := None)) ''PERSIST_DIRECTORY'' = env ''PERSIST_DIRECTORY''"
      "(env(k := None)) ''MODEL_N_BATCH'' = env ''MODEL_N_BATCH''"
      "(env(k := None)) ''TARGET_SOURCE_CHUNKS'' = env ''TARGET_SOURCE_CHUNKS''"
      by auto
    then show "isl (privateGPT_module w dotenv_loaded (env(k := None))) =
        isl (privateGPT_module w dotenv_loaded env)"
      by (simp add: privateGPT_module_def constants_module_def
          split: option.splits sum.splits)
  qed
  have c5: "privateGPT_module w dotenv_loaded env = Inr cfg \<longrightarrow>
       embeddings_model_name cfg = env ''EMBEDDINGS_MODEL_NAME'' \<and>
       model_type cfg = env ''MODEL_TYPE'' \<and> model_path cfg = env ''MODEL_PATH'' \<and>
       model_n_ctx cfg = env ''MODEL_N_CTX''"
    by (auto simp: privateGPT_module_def split: option.splits sum.splits if_splits)
  from c1 c2 c3 c4 c5 show ?thesis
    by (intro conjI)
qed

theorem only_store_location_is_checked_witness:
  "''GPT4All'' \<in> set (llms_exports respelled_runtime) \<and>
   ''Llamacpp'' \<in> set (llms_exports respelled_runtime) \<and>
   (full_env(''PERSIST_DIRECTORY'' := None)) ''PERSIST_DIRECTORY'' = None \<and>
   privateGPT respelled_runtime True (full_env(''PERSIST_DIRECTORY'' := None)) [''hello''] =
     ([], Some (PyException ''Please set the PERSIST_DIRECTORY environment variable'')) \<and>
   (full_env(''MODEL_N_BATCH'' := None)) ''PERSIST_DIRECTORY'' = Some ''db'' \<and>
   (full_env(''MODEL_N_BATCH'' := None)) ''MODEL_N_BATCH'' = None \<and>
   privateGPT respelled_runtime True (full_env(''MODEL_N_BATCH'' := None)) [''hello''] =
     ([], Some (TypeError ''int() can't convert non-string with explicit base'')) \<and>
   (full_env(''TARGET_SOURCE_CHUNKS'' := None)) ''MODEL_N_BATCH'' = Some ''10'' \<and>
   py_int_str ''10'' 8 = Inr 8 \<and>
   (full_env(''TARGET_SOURCE_CHUNKS'' := None)) ''TARGET_SOURCE_CHUNKS'' = None \<and>
   privateGPT respelled_runtime True (full_env(''TARGET_SOURCE_CHUNKS'' := None)) [''hello''] =
     ([], Some (TypeError ''int() can't convert non-string with explicit base'')) \<and>
   isl (privateGPT_module respelled_runtime True (full_env(''MODEL_PATH'' := None))) =
     isl (privateGPT_module respelled_runtime True full_env) \<and>
   privateGPT_module respelled_runtime True (full_env(''MODEL_PATH'' := None)) =
     Inr \<lparr>embeddings_model_name = Some ''bge'', persist_directory = Some ''db'',
          model_type = Some ''GPT4ALL'', model_path = None, model_n_ctx = Some ''1000'',
          model_n_batch = 8, target_source_chunks = 3\<rparr>"
proof -
  note i = respelled_imports
  have m: "privateGPT_module respelled_runtime True (full_env(''MODEL_PATH'' := None)) =
     Inr \<lparr>embeddings_model_name = Some ''bge'', persist_directory = Some ''db'',
          model_type = Some ''GPT4ALL'', model_path = None, model_n_ctx = Some ''1000'',
          model_n_batch = 8, target_source_chunks = 3\<rparr>"
    by (simp add: respelled_module full_env_def)
  have a: "privateGPT respelled_runtime True (full_env(''PERSIST_DIRECTORY'' := None))
      [''hello''] =
     ([], Some (PyException ''Please set the PERSIST_DIRECTORY environment variable''))"
    using only_store_location_is_checked [OF i,
        where env = "full_env(''PERSIST_DIRECTORY'' := None)" and dotenv_loaded = True
        and inputs = "[''hello'']"]
    by simp
  have b: "privateGPT respelled_runtime True (full_env(''MODEL_N_BATCH'' := None)) [''hello''] =
     ([], Some (TypeError ''int() can't convert non-string with explicit base''))"
    using only_store_location_is_checked [OF i,
        where env = "full_env(''MODEL_N_BATCH'' := None)" and inputs = "[''hello'']"
        and d = "''db''"]
    by (simp add: full_env_def)
  have c: "privateGPT respelled_runtime True (full_env(''TARGET_SOURCE_CHUNKS'' := None))
      [''hello''] =
     ([], Some (TypeError ''int() can't convert non-string with explicit base''))"
    using only_store_location_is_checked [OF i,
        where env = "full_env(''TARGET_SOURCE_CHUNKS'' := None)" and inputs = "[''hello'']"
        and d = "''db''" and b = "''10''" and n = 8]
    by (simp add: full_env_def py_int_10_base8)
  have d: "isl (privateGPT_module respelled_runtime True (full_env(''MODEL_PATH'' := None))) =
     isl (privateGPT_module respelled_runtime True full_env)"
    using only_store_location_is_checked [OF i,
        where k = "''MODEL_PATH''" and dotenv_loaded = True and env = full_env]
    by simp
  show ?thesis
    using i m a b c d by (simp add: full_env_def py_int_10_base8)
qed


section \<open>The loader registry\<close>

lemma rsplit_last_dotted:
  assumes "CHR ''.'' \<notin> set e"
  shows "rsplit_last (stem @ CHR ''.'' # e) = e"
proof -
  have "takeWhile (\<lambda>c. c \<noteq> CHR ''.'') (rev e @ CHR ''.'' # rev stem) = rev e"
    using assms by (intro takeWhile_stops) auto
  then show ?thesis
    by (simp add: rsplit_last_def)
qed

lemma rsplit_last_no_dot:
  assumes "CHR ''.'' \<notin> set s"
  shows "rsplit_last s = s"
proof -
  have whole: "takeWhile (\<lambda>c. c \<noteq> CHR ''.'') (rev s) = rev s"
    using assms by (intro takeWhile_whole) auto
  show ?thesis
    unfolding rsplit_last_def whole by simp
qed

lemma file_ext_zip: "file_ext ''archive.zip'' = ''.zip''"
  by code_simp

lemma file_ext_TXT: "file_ext ''docs/Notes.TXT'' = ''.txt''"
  by code_simp

lemma lookup_zip: "map_of LOADER_MAPPING ''.zip'' = None"
  by code_simp

lemma lookup_txt: "map_of LOADER_MAPPING ''.txt'' = Some (TextLoader, [(''encoding'', ''utf8'')])"
 
  by code_simp
lemma lower_TXT: "py_lower ''TXT'' = ''txt''"
  by code_simp

lemma lower_txt: "py_lower ''txt'' = ''txt''"
  by code_simp

lemma lookup_dot_txt:
  "map_of LOADER_MAPPING ''.txt'' = Some (TextLoader, [(''encoding'', ''utf8'')])"
  by code_simp

text \<open>
  C8. \<open>load_single_document\<close> looks the type identifier of the path up in the registry,
  which it only reads: when the identifier is no key, the result is the \<open>ValueError\<close>
  whose message quotes the identifier; when it is a key, the result is the run of the
  loader class registered under it, on the path and with the registered arguments. The
  identifier of a path that ends with a dot and an extension is the dot and the
  extension in lower case.
\<close>

theorem load_single_document_dispatch:
  "(map_of LOADER_MAPPING (file_ext file_path) = None \<longrightarrow>
      load_single_document rl file_path =
        Inl (ValueError (''Unsupported file extension '' @ [quote] @ file_ext file_path @ [quote]))) \<and>
   (map_of LOADER_MAPPING (file_ext file_path) = Some (cls, kwargs) \<longrightarrow>
      load_single_document rl file_path = rl cls file_path kwargs) \<and>
   (CHR ''.'' \<notin> set e \<longrightarrow> file_ext (stem @ CHR ''.'' # e) = CHR ''.'' # py_lower e)"
  by (simp add: load_single_document_def file_ext_def rsplit_last_dotted)

theorem load_single_document_dispatch_witness:
  "map_of LOADER_MAPPING (file_ext ''archive.zip'') = None \<and>
   load_single_document reads_all ''archive.zip'' =
     Inl (ValueError (''Unsupported file extension '' @ [quote] @ ''.zip'' @ [quote])) \<and>
   map_of LOADER_MAPPING (file_ext ''docs/Notes.TXT'') = Some (TextLoader, [(''encoding'', ''utf8'')]) \<and>
   load_single_document reads_all ''docs/Notes.TXT'' = reads_all TextLoader ''docs/Notes.TXT'' [(''encoding'', ''utf8'')] \<and>
   CHR ''.'' \<notin> set ''TXT'' \<and> file_ext (''docs/Notes'' @ CHR ''.'' # ''TXT'') = ''.txt''"
  using load_single_document_dispatch [of "''archive.zip''" reads_all TextLoader "[]" "''TXT''" "''docs/Notes''"]
    load_single_document_dispatch [of "''docs/Notes.TXT''" reads_all TextLoader "[(''encoding'', ''utf8'')]" "''TXT''" "''docs/Notes''"]
  by (simp add: file_ext_zip file_ext_TXT lookup_zip lookup_dot_txt lower_TXT)

text \<open>
  C2. A file whose extension mixes upper and lower case is not among the files the scan
  discovers, although the all-lower and all-upper spellings are, and although
  \<open>load_single_document\<close> finds a loader for it.
\<close>

theorem mixed_case_extension_not_discovered:
  "all_files [''source_documents/notes.Txt''] = [] \<and>
   all_files [''source_documents/notes.txt'', ''source_documents/notes.TXT''] =
     [''source_documents/notes.txt'', ''source_documents/notes.TXT''] \<and>
   map_of LOADER_MAPPING (file_ext ''source_documents/notes.Txt'') =
     Some (TextLoader, [(''encoding'', ''utf8'')])"
  by code_simp


section \<open>The scan\<close>

lemma patterns_eval:
  "concat (map (\<lambda>(ext, _). [py_lower ext, py_upper ext]) LOADER_MAPPING) =
     [''.csv'', ''.CSV'', ''.doc'', ''.DOC'', ''.docx'', ''.DOCX'', ''.enex'', ''.ENEX'',
      ''.epub'', ''.EPUB'', ''.html'', ''.HTML'', ''.md'', ''.MD'', ''.odt'', ''.ODT'',
      ''.ppt'', ''.PPT'', ''.pptx'', ''.PPTX'', ''.pdf'', ''.PDF'', ''.txt'', ''.TXT'']"
  by code_simp

lemma all_files_patterns:
  "all_files paths =
     concat (map (glob_ext paths)
       [''.csv'', ''.CSV'', ''.doc'', ''.DOC'', ''.docx'', ''.DOCX'', ''.enex'', ''.ENEX'',
        ''.epub'', ''.EPUB'', ''.html'', ''.HTML'', ''.md'', ''.MD'', ''.odt'', ''.ODT'',
        ''.ppt'', ''.PPT'', ''.pptx'', ''.PPTX'', ''.pdf'', ''.PDF'', ''.txt'', ''.TXT''])"
  unfolding all_files_def concat_map_pairs patterns_eval ..

lemma glob_ext_none: "\<forall>p \<in> set paths. \<not> suffix e p \<Longrightarrow> glob_ext paths e = []"
  by (simp add: glob_ext_def)

lemma glob_ext_every: "\<forall>p \<in> set paths. suffix e p \<Longrightarrow> glob_ext paths e = paths"
  by (simp add: glob_ext_def)

lemma three_text_files:
  assumes "set paths = {d @ ''a.txt'', d @ ''b.txt'', d @ ''c.txt''}"
  shows "all_files paths = paths"
proof -
  have no: "glob_ext paths e = []"
    if "length e \<le> 5" "\<not> suffix e ''a.txt''" "\<not> suffix e ''b.txt''" "\<not> suffix e ''c.txt''" for e
    using assms that by (intro glob_ext_none) (simp add: suffix_of_longer_tail)
  have yes: "glob_ext paths ''.txt'' = paths"
    using assms by (intro glob_ext_every) (simp add: suffix_of_longer_tail suffix_to_prefix)
  show ?thesis
    unfolding all_files_patterns
    by (simp add: yes no suffix_to_prefix)
qed

lemma collect_single: "collect [] [r] = r"
  by (cases r) simp_all

lemma three_listing: "listing three_files_world [] = [''a.txt'', ''b.txt'', ''c.txt'']"
  by (simp add: three_files_world_def)

lemma three_completion: "completion three_files_world fs = fs"
  by (simp add: three_files_world_def)

lemma three_filtered:
  "filtered_files (listing three_files_world []) [] = [''a.txt'', ''b.txt'', ''c.txt'']"
  by code_simp

lemma three_loads:
  "load_single_document (run_loader three_files_world) ''a.txt'' = Inr [text_document ''a.txt'']"
  "load_single_document (run_loader three_files_world) ''b.txt'' = Inr [text_document ''b.txt'']"
  "load_single_document (run_loader three_files_world) ''c.txt'' = Inr [text_document ''c.txt'']"
  by code_simp+

lemma stored_a_b_sources:
  "stored_sources (map metadata stored_a_b) = Inr [''a.txt'', ''a.txt'', ''b.txt'']"
  by code_simp

text \<open>
  C4. In append mode, with a store whose records have the sources \<open>a.txt\<close> and \<open>b.txt\<close>
  and a source root holding \<open>a.txt\<close>, \<open>b.txt\<close> and \<open>c.txt\<close> (each path with the same
  directory prefix \<open>d\<close>), the files kept for loading are \<open>c.txt\<close> alone, the scan returns
  what the text loader returns for it, and a run whose write to the store returns adds
  the chunks of these Documents and nothing else, while a run whose write raises ends
  with that exception and adds nothing.
\<close>

theorem append_mode_loads_only_new_file:
  assumes "stored_sources (map metadata db) = Inr ignored_files"
    and "set ignored_files = {d @ ''a.txt'', d @ ''b.txt''}"
    and "set (listing w (source_directory w)) = {d @ ''a.txt'', d @ ''b.txt'', d @ ''c.txt''}"
    and "distinct (listing w (source_directory w))"
    and "mset (completion w [d @ ''c.txt'']) = mset [d @ ''c.txt'']"
  shows "filtered_files (listing w (source_directory w)) ignored_files = [d @ ''c.txt''] \<and>
         load_documents w (source_directory w) ignored_files =
           run_loader w TextLoader (d @ ''c.txt'') [(''encoding'', ''utf8'')] \<and>
         (run_loader w TextLoader (d @ ''c.txt'') [(''encoding'', ''utf8'')] = Inr docs
            \<and> docs \<noteq> [] \<and> write_error w db (split_documents w docs) = None \<longrightarrow>
            ingest_main w db =
              ([SayAppending, SayLoading (source_directory w),
                SayLoaded (length docs) (source_directory w), SplitDocuments,
                SaySplit (length (split_documents w docs)), SayEmbedding,
                AddDocuments (length (split_documents w docs)), Persist, SayComplete],
               db @ split_documents w docs, None)) \<and>
         (run_loader w TextLoader (d @ ''c.txt'') [(''encoding'', ''utf8'')] = Inr docs
            \<and> docs \<noteq> [] \<and> write_error w db (split_documents w docs) = Some e \<longrightarrow>
            ingest_main w db =
              ([SayAppending, SayLoading (source_directory w),
                SayLoaded (length docs) (source_directory w), SplitDocuments,
                SaySplit (length (split_documents w docs)), SayEmbedding],
               db, Some e))"
proof -
  let ?paths = "listing w (source_directory w)"
  have all: "all_files ?paths = ?paths"
    using assms(3) by (rule three_text_files)
  have "set (filtered_files ?paths ignored_files) = {d @ ''c.txt''}"
    using assms(2,3) by (auto simp: filtered_files_def all)
  moreover have "distinct (filtered_files ?paths ignored_files)"
    using assms(4) by (simp add: filtered_files_def all)
  ultimately have only: "filtered_files ?paths ignored_files = [d @ ''c.txt'']"
    by (intro distinct_singleton)
  have order: "completion w [d @ ''c.txt''] = [d @ ''c.txt'']"
    using assms(5) by simp
  have "file_ext ((d @ ''c'') @ CHR ''.'' # ''txt'') = CHR ''.'' # py_lower ''txt''"
    unfolding file_ext_def by (subst rsplit_last_dotted) simp_all
  then have ext: "file_ext (d @ ''c.txt'') = ''.txt''"
    by (simp add: lower_txt)
  have "load_single_document (run_loader w) (d @ ''c.txt'') =
          run_loader w TextLoader (d @ ''c.txt'') [(''encoding'', ''utf8'')]"
    by (simp add: load_single_document_def ext lookup_dot_txt)
  with only order have scan: "load_documents w (source_directory w) ignored_files =
      run_loader w TextLoader (d @ ''c.txt'') [(''encoding'', ''utf8'')]"
    by (simp add: load_documents_def collect_single)
  have "ignored_files \<noteq> []"
    using assms(2) by auto
  with assms(1) have "db \<noteq> []"
    by auto
  then have exists: "does_vectorstore_exist db"
    by (simp add: does_vectorstore_exist_def)
  have run: "ingest_main w db =
      ([SayAppending, SayLoading (source_directory w),
        SayLoaded (length docs) (source_directory w), SplitDocuments,
        SaySplit (length (split_documents w docs)), SayEmbedding,
        AddDocuments (length (split_documents w docs)), Persist, SayComplete],
       db @ split_documents w docs, None)"
    if "run_loader w TextLoader (d @ ''c.txt'') [(''encoding'', ''utf8'')] = Inr docs"
      and "docs \<noteq> []" and "write_error w db (split_documents w docs) = None"
    using that exists assms(1) scan
    by (simp add: ingest_main_def process_documents_def Let_def)
  have stop: "ingest_main w db =
      ([SayAppending, SayLoading (source_directory w),
        SayLoaded (length docs) (source_directory w), SplitDocuments,
        SaySplit (length (split_documents w docs)), SayEmbedding],
       db, Some e)"
    if "run_loader w TextLoader (d @ ''c.txt'') [(''encoding'', ''utf8'')] = Inr docs"
      and "docs \<noteq> []" and "write_error w db (split_documents w docs) = Some e"
    using that exists assms(1) scan
    by (simp add: ingest_main_def process_documents_def Let_def)
  from only scan run stop show ?thesis
    by blast
qed

theorem append_mode_loads_only_new_file_witness:
  "stored_sources (map metadata stored_a_b) = Inr [''a.txt'', ''a.txt'', ''b.txt''] \<and>
   set [''a.txt'', ''a.txt'', ''b.txt''] = {[] @ ''a.txt'', [] @ ''b.txt''} \<and>
   set (listing three_files_world (source_directory three_files_world)) =
     {[] @ ''a.txt'', [] @ ''b.txt'', [] @ ''c.txt''} \<and>
   distinct (listing three_files_world (source_directory three_files_world)) \<and>
   mset (completion three_files_world [[] @ ''c.txt'']) = mset [[] @ ''c.txt''] \<and>
   run_loader three_files_world TextLoader ([] @ ''c.txt'') [(''encoding'', ''utf8'')] =
     Inr [text_document ''c.txt''] \<and>
   [text_document ''c.txt''] \<noteq> [] \<and>
   write_error three_files_world stored_a_b
     (split_documents three_files_world [text_document ''c.txt'']) = None \<and>
   filtered_files (listing three_files_world []) [''a.txt'', ''a.txt'', ''b.txt''] = [''c.txt''] \<and>
   load_documents three_files_world [] [''a.txt'', ''a.txt'', ''b.txt''] =
     Inr [text_document ''c.txt''] \<and>
   ingest_main three_files_world stored_a_b =
     ([SayAppending, SayLoading [], SayLoaded 1 [], SplitDocuments, SaySplit 1, SayEmbedding,
       AddDocuments 1, Persist, SayComplete],
      stored_a_b @ [text_document ''c.txt''], None)"
proof -
  have dir: "source_directory three_files_world = []"
    by (simp add: three_files_world_def)
  have h2: "set [''a.txt'', ''a.txt'', ''b.txt''] = {[] @ ''a.txt'', [] @ ''b.txt''}"
    by simp
  have h3: "set (listing three_files_world (source_directory three_files_world)) =
      {[] @ ''a.txt'', [] @ ''b.txt'', [] @ ''c.txt''}"
    by (simp add: three_listing dir)
  have h4: "distinct (listing three_files_world (source_directory three_files_world))"
    by (simp add: three_listing dir)
  have h5: "mset (completion three_files_world [[] @ ''c.txt'']) = mset [[] @ ''c.txt'']"
    by (simp add: three_completion)
  have run: "run_loader three_files_world TextLoader ''c.txt'' [(''encoding'', ''utf8'')] =
      Inr [text_document ''c.txt'']"
    by (simp add: three_files_world_def reads_all_def)
  have split: "split_documents three_files_world ds = ds" for ds
    by (simp add: three_files_world_def)
  have stored: "write_error three_files_world stored_a_b [text_document ''c.txt''] = None"
    by (simp add: three_files_world_def no_empty_write_def)
  show ?thesis
    using h2 h3 h4 h5
      append_mode_loads_only_new_file [OF stored_a_b_sources h2 h3 h4 h5,
        of "[text_document ''c.txt'']"]
    by (simp add: stored_a_b_sources run dir split stored)
qed

lemma collect_raises:
  "Inl e \<in> set rs \<Longrightarrow> \<exists>e'. collect acc rs = Inl e' \<and> Inl e' \<in> set rs"
proof (induction rs arbitrary: acc)
  case Nil
  then show ?case by simp
next
  case (Cons r rs)
  show ?case
  proof (cases r)
    case (Inl e0)
    then show ?thesis by simp
  next
    case (Inr docs)
    with Cons.prems have "Inl e \<in> set rs" by auto
    from Cons.IH [OF this, of "acc @ docs"] Inr show ?thesis by auto
  qed
qed

lemma collect_all_loaded:
  "\<forall>r \<in> set rs. \<exists>docs. r = Inr docs \<Longrightarrow> collect acc rs = Inr (acc @ concat (map projr rs))"
proof (induction rs arbitrary: acc)
  case Nil
  then show ?case by simp
next
  case (Cons r rs)
  then obtain docs where r: "r = Inr docs" by auto
  from Cons have "collect (acc @ docs) rs = Inr ((acc @ docs) @ concat (map projr rs))"
    by simp
  with r show ?case by simp
qed

lemma bad_filtered: "filtered_files (listing bad_file_world []) [] = [''a.txt'', ''b.txt'']"
  by code_simp

lemma bad_loads_a:
  "load_single_document (run_loader bad_file_world) ''a.txt'' = Inr [text_document ''a.txt'']"
  by code_simp

lemma bad_fails_b:
  "load_single_document (run_loader bad_file_world) ''b.txt'' = Inl (External ''cannot decode'')"
  by code_simp

lemma bad_completion: "completion bad_file_world fs = fs"
  by (simp add: bad_file_world_def)

text \<open>
  Two files, the loader of the second one raising: the scan does not return the
  Documents of the first file, it ends with the exception of the second.
\<close>

theorem loader_failure_isolated_counterexample:
  "load_single_document (run_loader bad_file_world) ''a.txt'' = Inr [text_document ''a.txt''] \<and>
   load_single_document (run_loader bad_file_world) ''b.txt'' = Inl (External ''cannot decode'') \<and>
   load_documents bad_file_world [] [] = Inl (External ''cannot decode'') \<and>
   load_documents bad_file_world [] [] \<noteq> Inr [text_document ''a.txt'']"
  by (simp add: bad_loads_a bad_fails_b load_documents_def bad_filtered bad_completion)

text \<open>
  C1, amended. A loader failure is not isolated: when the loader of some discovered
  file raises, \<open>load_documents\<close> raises the exception of a failing file and returns no
  Document, in whatever order the workers complete; when every file loads, the result
  is the concatenation of their Documents in the order of completion.
\<close>

theorem loader_failure_aborts_scan:
  assumes "mset (completion w (filtered_files (listing w source_dir) ignored_files)) =
           mset (filtered_files (listing w source_dir) ignored_files)"
  shows
    "(file_path \<in> set (filtered_files (listing w source_dir) ignored_files) \<and>
      load_single_document (run_loader w) file_path = Inl e \<longrightarrow>
        (\<exists>e' failed. load_documents w source_dir ignored_files = Inl e' \<and>
           failed \<in> set (filtered_files (listing w source_dir) ignored_files) \<and>
           load_single_document (run_loader w) failed = Inl e')) \<and>
     ((\<forall>p \<in> set (filtered_files (listing w source_dir) ignored_files).
         \<exists>docs. load_single_document (run_loader w) p = Inr docs) \<longrightarrow>
        load_documents w source_dir ignored_files =
          Inr (concat (map (\<lambda>p. projr (load_single_document (run_loader w) p))
                 (completion w (filtered_files (listing w source_dir) ignored_files)))))"
proof -
  let ?fs = "filtered_files (listing w source_dir) ignored_files"
  let ?load = "load_single_document (run_loader w)"
  have same: "set (completion w ?fs) = set ?fs"
    using assms by (rule mset_eq_setD)
  show ?thesis
  proof (intro conjI impI)
    assume "file_path \<in> set ?fs \<and> ?load file_path = Inl e"
    then have "Inl e \<in> set (map ?load (completion w ?fs))"
      using same by force
    from collect_raises [OF this, of "[]"]
    obtain e' where e': "collect [] (map ?load (completion w ?fs)) = Inl e'"
      and mem: "Inl e' \<in> set (map ?load (completion w ?fs))"
      by blast
    from mem obtain failed where "failed \<in> set ?fs" "?load failed = Inl e'"
      using same by auto
    with e' show "\<exists>e' failed. load_documents w source_dir ignored_files = Inl e' \<and>
        failed \<in> set ?fs \<and> ?load failed = Inl e'"
      by (auto simp: load_documents_def)
  next
    assume "\<forall>p \<in> set ?fs. \<exists>docs. ?load p = Inr docs"
    then have "\<forall>r \<in> set (map ?load (completion w ?fs)). \<exists>docs. r = Inr docs"
      using same by auto
    from collect_all_loaded [OF this, of "[]"]
    show "load_documents w source_dir ignored_files =
        Inr (concat (map (\<lambda>p. projr (?load p)) (completion w ?fs)))"
      by (simp add: load_documents_def comp_def)
  qed
qed

theorem loader_failure_aborts_scan_witness:
  "mset (completion bad_file_world (filtered_files (listing bad_file_world []) [])) =
     mset (filtered_files (listing bad_file_world []) []) \<and>
   ''b.txt'' \<in> set (filtered_files (listing bad_file_world []) []) \<and>
   load_single_document (run_loader bad_file_world) ''b.txt'' = Inl (External ''cannot decode'') \<and>
   (\<exists>e'. load_documents bad_file_world [] [] = Inl e') \<and>
   mset (completion three_files_world (filtered_files (listing three_files_world []) [])) =
     mset (filtered_files (listing three_files_world []) []) \<and>
   filtered_files (listing three_files_world []) [] = [''a.txt'', ''b.txt'', ''c.txt''] \<and>
   load_single_document (run_loader three_files_world) ''a.txt'' = Inr [text_document ''a.txt''] \<and>
   load_single_document (run_loader three_files_world) ''b.txt'' = Inr [text_document ''b.txt''] \<and>
   load_single_document (run_loader three_files_world) ''c.txt'' = Inr [text_document ''c.txt''] \<and>
   load_documents three_files_world [] [] =
     Inr [text_document ''a.txt'', text_document ''b.txt'', text_document ''c.txt'']"
proof -
  have p1: "mset (completion bad_file_world (filtered_files (listing bad_file_world []) [])) =
     mset (filtered_files (listing bad_file_world []) [])"
    by (simp add: bad_completion)
  have p2: "mset (completion three_files_world (filtered_files (listing three_files_world []) [])) =
     mset (filtered_files (listing three_files_world []) [])"
    by (simp add: three_completion)
  have a: "\<exists>e'. load_documents bad_file_world [] [] = Inl e'"
    using loader_failure_aborts_scan [OF p1, of "''b.txt''" "External ''cannot decode''"]
    by (auto simp: bad_filtered bad_fails_b)
  have all: "\<forall>p \<in> set (filtered_files (listing three_files_world []) []).
      \<exists>docs. load_single_document (run_loader three_files_world) p = Inr docs"
    by (simp add: three_filtered three_loads)
  have b: "load_documents three_files_world [] [] =
     Inr [text_document ''a.txt'', text_document ''b.txt'', text_document ''c.txt'']"
    using loader_failure_aborts_scan [OF p2, of "''b.txt''" "External ''cannot decode''"] all
    by (simp add: three_filtered three_loads three_completion)
  show ?thesis
    using p1 p2 a b by (simp add: bad_filtered bad_fails_b three_filtered three_loads)
qed


section \<open>A run with nothing new\<close>

lemma empty_root_scan: "load_documents empty_root_world source_dir ignored = Inr []"
  by (simp add: load_documents_def empty_root_world_def filtered_files_def all_files_patterns
      glob_ext_def)

text \<open>
  C5. When the scan yields no Document, the run ends with \<open>exit(0)\<close> after printing
  that there is nothing new: the text splitter is not called, nothing is embedded or
  added, \<open>persist\<close> is not called and the store is left as it was found.
\<close>

theorem no_documents_exits_successfully:
  assumes "stored_sources (map metadata db) = Inr ignored"
    and "load_documents w (source_directory w) ignored = Inr []"
  shows "ingest_main w db =
           ([if db = [] then SayCreating else SayAppending,
             SayLoading (source_directory w), SayNoNew],
            db, Some (SystemExit 0))"
proof (cases "db = []")
  case True
  with assms have "ignored = []" by simp
  with assms True show ?thesis
    by (simp add: ingest_main_def does_vectorstore_exist_def process_documents_def)
next
  case False
  with assms show ?thesis
    by (simp add: ingest_main_def does_vectorstore_exist_def process_documents_def)
qed

theorem no_documents_exits_successfully_witness:
  "stored_sources (map metadata stored_a_b) = Inr [''a.txt'', ''a.txt'', ''b.txt''] \<and>
   load_documents empty_root_world (source_directory empty_root_world)
     [''a.txt'', ''a.txt'', ''b.txt''] = Inr [] \<and>
   ingest_main empty_root_world stored_a_b =
     ([SayAppending, SayLoading ''source_documents'', SayNoNew], stored_a_b, Some (SystemExit 0)) \<and>
   stored_sources (map metadata []) = Inr [] \<and>
   load_documents empty_root_world (source_directory empty_root_world) [] = Inr [] \<and>
   ingest_main empty_root_world [] =
     ([SayCreating, SayLoading ''source_documents'', SayNoNew], [], Some (SystemExit 0))"
proof -
  have s0: "stored_sources (map metadata []) = Inr []" by simp
  have nonempty: "stored_a_b \<noteq> []" by (simp add: stored_a_b_def)
  have dir: "source_directory empty_root_world = ''source_documents''"
    by (simp add: empty_root_world_def)
  show ?thesis
    using no_documents_exits_successfully [OF stored_a_b_sources empty_root_scan]
      no_documents_exits_successfully [OF s0 empty_root_scan] nonempty
    by (simp add: stored_a_b_sources empty_root_scan dir)
qed

end
